theory Spec2Isabelle
  imports Complex_Main
begin

section \<open>Outcomes of Python calls\<close>

text \<open>
  The Python exceptions that the modelled code can meet. All of them are subclasses of
  \<open>Exception\<close>, so a handler \<open>except Exception\<close> catches each of them, while
  \<open>except sqlite3.IntegrityError\<close> catches only the first.
\<close>

datatype exn = IntegrityError | OperationalError | ValueError

datatype 'a outcome = Returned 'a | Raised exn

section \<open>config.py and main.py: the dashboards and who sees them\<close>

text \<open>
  \<open>DASHBOARD_PERMISSIONS\<close> of config.py, a dict from role to the list of dashboard names,
  kept as the association list of its items.
\<close>

definition DASHBOARD_PERMISSIONS :: "(string \<times> string list) list" where
  "DASHBOARD_PERMISSIONS =
     [(''admin'', [''executive'', ''cybersecurity'', ''data_science'', ''it_operations'', ''ai_assistant'']),
      (''cybersecurity'', [''executive'', ''cybersecurity'', ''ai_assistant'']),
      (''data_science'', [''executive'', ''data_science'', ''ai_assistant'']),
      (''it_operations'', [''executive'', ''it_operations'', ''ai_assistant''])]"

text \<open>
  Modelled from the spec: \<open>allowed_dashboards\<close> and \<open>authorize\<close> of the Authorization
  Policy. No function of the source reads \<open>DASHBOARD_PERMISSIONS\<close>; the two accessors
  below are the spec's ("unknown role gives the empty set", "authorize delegates to the
  policy"), over the table of config.py.
\<close>

definition allowed_dashboards :: "string \<Rightarrow> string list" where
  "allowed_dashboards user_role =
     (case map_of DASHBOARD_PERMISSIONS user_role of None \<Rightarrow> [] | Some ds \<Rightarrow> ds)"

definition authorize :: "string \<Rightarrow> string \<Rightarrow> bool" where
  "authorize user_role dashboard_id \<longleftrightarrow> dashboard_id \<in> set (allowed_dashboards user_role)"

text \<open>
  The five dashboard classes that main.py imports, each from the module of the package
  \<open>dashboards\<close> whose name is the dashboard's name in config.py.
\<close>

datatype dashboard =
  ExecutiveDashboard | CyberSecurityDashboard | DataScienceDashboard
  | ITOperationsDashboard | AIAssistantDashboard

fun dashboard_module :: "dashboard \<Rightarrow> string" where
  "dashboard_module ExecutiveDashboard = ''executive''"
| "dashboard_module CyberSecurityDashboard = ''cybersecurity''"
| "dashboard_module DataScienceDashboard = ''data_science''"
| "dashboard_module ITOperationsDashboard = ''it_operations''"
| "dashboard_module AIAssistantDashboard = ''ai_assistant''"

text \<open>
  The labels of the navigation radio. In the source each label starts with an emoji and a
  space; the model keeps the ASCII part of the label, which is distinct for each entry.
\<close>

fun nav_label :: "dashboard \<Rightarrow> string" where
  "nav_label ExecutiveDashboard = ''Executive Dashboard''"
| "nav_label CyberSecurityDashboard = ''Cybersecurity''"
| "nav_label DataScienceDashboard = ''Data Science''"
| "nav_label ITOperationsDashboard = ''IT Operations''"
| "nav_label AIAssistantDashboard = ''AI Assistant''"

text \<open>\<open>show_main_application\<close>, the sidebar: the list \<open>dashboard_options\<close> built from the role.\<close>

definition dashboard_options :: "string \<Rightarrow> string list" where
  "dashboard_options user_role =
     [''Executive Dashboard'']
     @ (if user_role = ''admin''
        then [''Cybersecurity'', ''Data Science'', ''IT Operations'']
        else (if user_role = ''cybersecurity'' then [''Cybersecurity''] else [])
           @ (if user_role = ''data_science'' then [''Data Science''] else [])
           @ (if user_role = ''it_operations'' then [''IT Operations''] else []))
     @ [''AI Assistant'']"

text \<open>
  \<open>show_main_application\<close>, the main content area: what is drawn for the selected label and
  the role of the session. \<open>Display d\<close> is \<open>d(...).display()\<close>, \<open>Permission_Error\<close> is the
  \<open>st.error\<close> of a refused dashboard, \<open>Nothing_Drawn\<close> is the chain of \<open>elif\<close> falling
  through.
\<close>

datatype rendering = Display dashboard | Permission_Error | Nothing_Drawn

definition show_dashboard :: "string \<Rightarrow> string \<Rightarrow> rendering" where
  "show_dashboard user_role selected_dashboard =
     (if selected_dashboard = ''Executive Dashboard'' then Display ExecutiveDashboard
      else if selected_dashboard = ''Cybersecurity'' then
        (if user_role \<in> set [''admin'', ''cybersecurity'']
         then Display CyberSecurityDashboard else Permission_Error)
      else if selected_dashboard = ''Data Science'' then
        (if user_role \<in> set [''admin'', ''data_science'']
         then Display DataScienceDashboard else Permission_Error)
      else if selected_dashboard = ''IT Operations'' then
        (if user_role \<in> set [''admin'', ''it_operations'']
         then Display ITOperationsDashboard else Permission_Error)
      else if selected_dashboard = ''AI Assistant'' then Display AIAssistantDashboard
      else Nothing_Drawn)"

section \<open>database/db\_manager.py: the store\<close>

subsection \<open>Rows and tables\<close>

text \<open>
  One record per table, a field per column, \<open>option\<close> for a column that may be NULL.
  Timestamps are the text SQLite stores; REAL columns are real numbers (the rounding of
  floating point is not modelled).
\<close>

record user_row =
  u_username :: string
  u_password_hash :: string
  u_role :: string
  u_created_at :: string

record incident_row =
  inc_id :: int
  inc_title :: string
  inc_description :: "string option"
  inc_threat_type :: string
  inc_severity :: string
  inc_status :: string
  inc_created_at :: string
  inc_resolved_at :: "string option"
  inc_resolution_time_hours :: "real option"
  inc_assigned_to :: "string option"

record dataset_row =
  ds_id :: int
  ds_name :: string
  ds_source_department :: string
  ds_size_mb :: real
  ds_row_count :: int
  ds_column_count :: int
  ds_quality_score :: "real option"
  ds_last_accessed :: "string option"
  ds_created_at :: "string option"
  ds_sensitivity :: "string option"

record ticket_row =
  tkt_id :: int
  tkt_title :: string
  tkt_description :: "string option"
  tkt_status :: string
  tkt_assigned_to :: string
  tkt_current_stage :: string
  tkt_priority :: "string option"
  tkt_created_at :: string
  tkt_resolved_at :: "string option"
  tkt_time_in_stage_hours :: "real option"
  tkt_category :: "string option"

text \<open>The database file: its four tables, each the list of its rows in insertion order.\<close>

record database =
  users :: "user_row list"
  cyber_incidents :: "incident_row list"
  datasets_metadata :: "dataset_row list"
  it_tickets :: "ticket_row list"

text \<open>
  What one method call meets outside the tables: whether \<open>sqlite3.connect\<close> raises,
  whether the statement or the commit raises (a disk error, a lock that times out), the
  value of \<open>CURRENT_TIMESTAMP\<close> during the statement, and SQLite's \<open>julianday\<close>, which is
  NULL on a text that is not a date.
\<close>

record sqlite =
  connect_error :: "exn option"
  execute_error :: "exn option"
  CURRENT_TIMESTAMP :: string
  julianday :: "string \<Rightarrow> real option"

subsection \<open>SQL statements\<close>

text \<open>
  \<open>UPDATE t SET ... WHERE p\<close>: every row that satisfies \<open>p\<close> is replaced by its image,
  the right-hand sides being evaluated on the row as it was; \<open>rowcount\<close> is the number of
  rows that satisfied \<open>p\<close>. \<open>DELETE FROM t WHERE p\<close> likewise.
\<close>

definition sql_update :: "('r \<Rightarrow> bool) \<Rightarrow> ('r \<Rightarrow> 'r) \<Rightarrow> 'r list \<Rightarrow> 'r list \<times> nat" where
  "sql_update p f rows = (map (\<lambda>r. if p r then f r else r) rows, length (filter p rows))"

definition sql_delete :: "('r \<Rightarrow> bool) \<Rightarrow> 'r list \<Rightarrow> 'r list \<times> nat" where
  "sql_delete p rows = (filter (\<lambda>r. \<not> p r) rows, length (filter p rows))"

text \<open>\<open>AVG\<close> skips NULL and is NULL when nothing is left.\<close>

definition sql_avg :: "real option list \<Rightarrow> real option" where
  "sql_avg vs =
     (let xs = List.map_filter (\<lambda>v. v) vs
      in if xs = [] then None else Some (sum_list xs / real (length xs)))"

text \<open>The SET clause of \<open>update_ticket_status\<close>.\<close>

definition ticket_set :: "sqlite \<Rightarrow> string \<Rightarrow> string \<Rightarrow> ticket_row \<Rightarrow> ticket_row" where
  "ticket_set env status current_stage r =
     r\<lparr>tkt_status := status,
       tkt_current_stage := current_stage,
       tkt_resolved_at :=
         (if status = ''Resolved'' \<or> status = ''Closed''
          then Some (CURRENT_TIMESTAMP env) else tkt_resolved_at r)\<rparr>"

text \<open>The SET clause of \<open>update_dataset_quality\<close>.\<close>

definition dataset_set :: "sqlite \<Rightarrow> real \<Rightarrow> dataset_row \<Rightarrow> dataset_row" where
  "dataset_set env quality_score r =
     r\<lparr>ds_quality_score := Some quality_score,
       ds_last_accessed := Some (CURRENT_TIMESTAMP env)\<rparr>"

text \<open>
  The SET clause of \<open>update_incident_status\<close>. A difference with a NULL operand is NULL.
\<close>

definition elapsed_hours :: "sqlite \<Rightarrow> string \<Rightarrow> real option" where
  "elapsed_hours env created_at =
     (case julianday env (CURRENT_TIMESTAMP env) of
        None \<Rightarrow> None
      | Some j_now \<Rightarrow>
          (case julianday env created_at of
             None \<Rightarrow> None
           | Some j_created \<Rightarrow> Some ((j_now - j_created) * 24)))"

definition incident_set :: "sqlite \<Rightarrow> string \<Rightarrow> incident_row \<Rightarrow> incident_row" where
  "incident_set env status r =
     r\<lparr>inc_status := status,
       inc_resolved_at :=
         (if status = ''Resolved'' then Some (CURRENT_TIMESTAMP env) else inc_resolved_at r),
       inc_resolution_time_hours :=
         (if status = ''Resolved'' \<and> inc_resolution_time_hours r = None
          then elapsed_hours env (inc_created_at r)
          else inc_resolution_time_hours r)\<rparr>"

subsection \<open>The methods of DatabaseManager\<close>

text \<open>
  Each method returns what the Python call does (a value, or the exception that leaves
  it) and the database afterwards. A statement that raises has changed nothing: the
  commit is not reached.

  The three status and quality updates and the three deletes have the same shape:
  \<open>get_connection\<close> is called before the \<open>try\<close>, so its exception leaves the method;
  the statement and the commit are inside \<open>try ... except Exception\<close>, which prints
  and returns \<open>False\<close>.
\<close>

definition update_ticket_status ::
    "sqlite \<Rightarrow> database \<Rightarrow> int \<Rightarrow> string \<Rightarrow> string \<Rightarrow> bool outcome \<times> database" where
  "update_ticket_status env db ticket_id status current_stage =
     (case connect_error env of
        Some e \<Rightarrow> (Raised e, db)
      | None \<Rightarrow>
          (case execute_error env of
             Some e \<Rightarrow> (Returned False, db)
           | None \<Rightarrow>
               (let (rows, rowcount) =
                      sql_update (\<lambda>r. tkt_id r = ticket_id)
                        (ticket_set env status current_stage) (it_tickets db)
                in (Returned (rowcount > 0), db\<lparr>it_tickets := rows\<rparr>))))"

definition update_dataset_quality ::
    "sqlite \<Rightarrow> database \<Rightarrow> int \<Rightarrow> real \<Rightarrow> bool outcome \<times> database" where
  "update_dataset_quality env db dataset_id quality_score =
     (case connect_error env of
        Some e \<Rightarrow> (Raised e, db)
      | None \<Rightarrow>
          (case execute_error env of
             Some e \<Rightarrow> (Returned False, db)
           | None \<Rightarrow>
               (let (rows, rowcount) =
                      sql_update (\<lambda>r. ds_id r = dataset_id)
                        (dataset_set env quality_score) (datasets_metadata db)
                in (Returned (rowcount > 0), db\<lparr>datasets_metadata := rows\<rparr>))))"

definition update_incident_status ::
    "sqlite \<Rightarrow> database \<Rightarrow> int \<Rightarrow> string \<Rightarrow> bool outcome \<times> database" where
  "update_incident_status env db incident_id status =
     (case connect_error env of
        Some e \<Rightarrow> (Raised e, db)
      | None \<Rightarrow>
          (case execute_error env of
             Some e \<Rightarrow> (Returned False, db)
           | None \<Rightarrow>
               (let (rows, rowcount) =
                      sql_update (\<lambda>r. inc_id r = incident_id)
                        (incident_set env status) (cyber_incidents db)
                in (Returned (rowcount > 0), db\<lparr>cyber_incidents := rows\<rparr>))))"

definition delete_it_ticket :: "sqlite \<Rightarrow> database \<Rightarrow> int \<Rightarrow> bool outcome \<times> database" where
  "delete_it_ticket env db ticket_id =
     (case connect_error env of
        Some e \<Rightarrow> (Raised e, db)
      | None \<Rightarrow>
          (case execute_error env of
             Some e \<Rightarrow> (Returned False, db)
           | None \<Rightarrow>
               (let (rows, rowcount) = sql_delete (\<lambda>r. tkt_id r = ticket_id) (it_tickets db)
                in (Returned (rowcount > 0), db\<lparr>it_tickets := rows\<rparr>))))"

definition delete_dataset :: "sqlite \<Rightarrow> database \<Rightarrow> int \<Rightarrow> bool outcome \<times> database" where
  "delete_dataset env db dataset_id =
     (case connect_error env of
        Some e \<Rightarrow> (Raised e, db)
      | None \<Rightarrow>
          (case execute_error env of
             Some e \<Rightarrow> (Returned False, db)
           | None \<Rightarrow>
               (let (rows, rowcount) =
                      sql_delete (\<lambda>r. ds_id r = dataset_id) (datasets_metadata db)
                in (Returned (rowcount > 0), db\<lparr>datasets_metadata := rows\<rparr>))))"

definition delete_incident :: "sqlite \<Rightarrow> database \<Rightarrow> int \<Rightarrow> bool outcome \<times> database" where
  "delete_incident env db incident_id =
     (case connect_error env of
        Some e \<Rightarrow> (Raised e, db)
      | None \<Rightarrow>
          (case execute_error env of
             Some e \<Rightarrow> (Returned False, db)
           | None \<Rightarrow>
               (let (rows, rowcount) =
                      sql_delete (\<lambda>r. inc_id r = incident_id) (cyber_incidents db)
                in (Returned (rowcount > 0), db\<lparr>cyber_incidents := rows\<rparr>))))"

text \<open>
  \<open>get_user\<close> has \<open>try ... finally\<close> with no handler: every exception leaves the
  method. The dict it returns holds three of the four columns.
\<close>

record user_dict =
  dict_username :: string
  dict_password_hash :: string
  dict_role :: string

definition get_user :: "sqlite \<Rightarrow> database \<Rightarrow> string \<Rightarrow> user_dict option outcome" where
  "get_user env db username =
     (case connect_error env of
        Some e \<Rightarrow> Raised e
      | None \<Rightarrow>
          (case execute_error env of
             Some e \<Rightarrow> Raised e
           | None \<Rightarrow>
               (case find (\<lambda>r. u_username r = username) (users db) of
                  None \<Rightarrow> Returned None
                | Some user \<Rightarrow>
                    Returned (Some \<lparr>dict_username = u_username user,
                                    dict_password_hash = u_password_hash user,
                                    dict_role = u_role user\<rparr>))))"

text \<open>
  \<open>create_user\<close> catches \<open>sqlite3.IntegrityError\<close> only, which is what the INSERT raises
  when the primary key \<open>username\<close> is taken. The column \<open>created_at\<close> takes its default.
\<close>

definition create_user ::
    "sqlite \<Rightarrow> database \<Rightarrow> string \<Rightarrow> string \<Rightarrow> string \<Rightarrow> bool outcome \<times> database" where
  "create_user env db username password_hash role =
     (case connect_error env of
        Some e \<Rightarrow> (Raised e, db)
      | None \<Rightarrow>
          (case execute_error env of
             Some e \<Rightarrow> (if e = IntegrityError then Returned False else Raised e, db)
           | None \<Rightarrow>
               (if username \<in> set (map u_username (users db))
                then (Returned False, db)
                else (Returned True,
                      db\<lparr>users := users db @
                           [\<lparr>u_username = username, u_password_hash = password_hash,
                             u_role = role, u_created_at = CURRENT_TIMESTAMP env\<rparr>]\<rparr>))))"

text \<open>
  The library \<open>bcrypt\<close> is not part of the repository: its two functions are parameters,
  each returning a value or raising. \<open>bcrypt.gensalt()\<close> draws a random salt; the model
  takes the salts drawn as an argument.
\<close>

record bcrypt =
  hashpw :: "string \<Rightarrow> string \<Rightarrow> string outcome"
  checkpw :: "string \<Rightarrow> string \<Rightarrow> bool outcome"

text \<open>
  \<open>init_database\<close>. The four \<open>CREATE TABLE IF NOT EXISTS\<close> leave an existing table as it
  is; a table that does not exist yet is the empty list. The list \<open>default_users\<close> is
  built with four calls of \<open>bcrypt.hashpw\<close>, the \<open>k\<close>-th on the salt \<open>gensalt k\<close>. The loop
  inserts a default user when \<open>SELECT COUNT(*) ... WHERE username = ?\<close> is 0. The method
  has no handler.
\<close>

definition default_users ::
    "bcrypt \<Rightarrow> (nat \<Rightarrow> string) \<Rightarrow> (string \<times> string \<times> string) list outcome" where
  "default_users lib gensalt =
     (case hashpw lib ''admin123'' (gensalt 0) of Raised e \<Rightarrow> Raised e | Returned h0 \<Rightarrow>
      case hashpw lib ''cyber123'' (gensalt 1) of Raised e \<Rightarrow> Raised e | Returned h1 \<Rightarrow>
      case hashpw lib ''data123'' (gensalt 2) of Raised e \<Rightarrow> Raised e | Returned h2 \<Rightarrow>
      case hashpw lib ''it123'' (gensalt 3) of Raised e \<Rightarrow> Raised e | Returned h3 \<Rightarrow>
        Returned [(''admin'', h0, ''admin''),
                  (''cyber'', h1, ''cybersecurity''),
                  (''data'', h2, ''data_science''),
                  (''it'', h3, ''it_operations'')])"

fun insert_default_users ::
    "sqlite \<Rightarrow> (string \<times> string \<times> string) list \<Rightarrow> user_row list \<Rightarrow> user_row list" where
  "insert_default_users env [] rows = rows"
| "insert_default_users env ((username, hashed_pw, role) # rest) rows =
     insert_default_users env rest
       (if length (filter (\<lambda>r. u_username r = username) rows) = 0
        then rows @ [\<lparr>u_username = username, u_password_hash = hashed_pw,
                      u_role = role, u_created_at = CURRENT_TIMESTAMP env\<rparr>]
        else rows)"

definition init_database ::
    "sqlite \<Rightarrow> bcrypt \<Rightarrow> (nat \<Rightarrow> string) \<Rightarrow> database \<Rightarrow> unit outcome \<times> database" where
  "init_database env lib gensalt db =
     (case connect_error env of
        Some e \<Rightarrow> (Raised e, db)
      | None \<Rightarrow>
          (case execute_error env of
             Some e \<Rightarrow> (Raised e, db)
           | None \<Rightarrow>
               (case default_users lib gensalt of
                  Raised e \<Rightarrow> (Raised e, db)
                | Returned defaults \<Rightarrow>
                    (Returned (), db\<lparr>users := insert_default_users env defaults (users db)\<rparr>))))"

text \<open>\<open>get_statistics\<close>: the dict \<open>stats\<close>, a field per key. The method has no handler.\<close>

record statistics =
  user_count :: nat
  total_incidents :: nat
  open_incidents :: nat
  total_datasets :: nat
  avg_quality :: real
  total_tickets :: nat
  open_tickets :: nat

definition get_statistics :: "sqlite \<Rightarrow> database \<Rightarrow> statistics outcome" where
  "get_statistics env db =
     (case connect_error env of
        Some e \<Rightarrow> Raised e
      | None \<Rightarrow>
          (case execute_error env of
             Some e \<Rightarrow> Raised e
           | None \<Rightarrow>
               Returned
                 \<lparr>user_count = length (users db),
                  total_incidents = length (cyber_incidents db),
                  open_incidents = length (filter (\<lambda>r. inc_status r = ''Open'') (cyber_incidents db)),
                  total_datasets = length (datasets_metadata db),
                  avg_quality =
                    (case sql_avg (map ds_quality_score (datasets_metadata db)) of
                       None \<Rightarrow> 0 | Some a \<Rightarrow> a),
                  total_tickets = length (it_tickets db),
                  open_tickets = length (filter (\<lambda>r. tkt_status r = ''Open'') (it_tickets db))\<rparr>))"

section \<open>auth/authentication.py: AuthenticationSystem\<close>

definition hash_password :: "bcrypt \<Rightarrow> string \<Rightarrow> string \<Rightarrow> string outcome" where
  "hash_password lib salt password = hashpw lib password salt"

definition verify_password :: "bcrypt \<Rightarrow> string \<Rightarrow> string \<Rightarrow> bool" where
  "verify_password lib password hashed =
     (case checkpw lib password hashed of Returned b \<Rightarrow> b | Raised e \<Rightarrow> False)"

text \<open>
  \<open>register_user\<close> makes two calls of the store, \<open>get_user\<close> and \<open>create_user\<close>, each on a
  connection of its own (\<open>env_get\<close>, \<open>env_create\<close>). The whole body is inside
  \<open>try ... except Exception\<close>, which returns \<open>False\<close>.
\<close>

definition register_user ::
    "sqlite \<Rightarrow> sqlite \<Rightarrow> bcrypt \<Rightarrow> string \<Rightarrow> database \<Rightarrow> string \<Rightarrow> string \<Rightarrow> string
       \<Rightarrow> bool outcome \<times> database" where
  "register_user env_get env_create lib salt db username password role =
     (case get_user env_get db username of
        Raised e \<Rightarrow> (Returned False, db)
      | Returned (Some existing_user) \<Rightarrow> (Returned False, db)
      | Returned None \<Rightarrow>
          (case hash_password lib salt password of
             Raised e \<Rightarrow> (Returned False, db)
           | Returned hashed_pw \<Rightarrow>
               (case create_user env_create db username hashed_pw role of
                  (Raised e, db') \<Rightarrow> (Returned False, db')
                | (Returned success, db') \<Rightarrow>
                    (if success then (Returned True, db') else (Returned False, db')))))"

definition login_user ::
    "sqlite \<Rightarrow> bcrypt \<Rightarrow> database \<Rightarrow> string \<Rightarrow> string \<Rightarrow> user_dict option outcome" where
  "login_user env lib db username password =
     (case get_user env db username of
        Raised e \<Rightarrow> Returned None
      | Returned None \<Rightarrow> Returned None
      | Returned (Some user) \<Rightarrow>
          (if verify_password lib password (dict_password_hash user)
           then Returned (Some user) else Returned None))"

section \<open>Concrete inputs\<close>

text \<open>
  A small store, a few environments and a stand-in for the hashing library, on which the
  theorems below are evaluated. The Julian day numbers are those of the three dates.
\<close>

definition example_julianday :: "string \<Rightarrow> real option" where
  "example_julianday s =
     (if s = ''2024-01-01 00:00:00'' then Some 2460310.5
      else if s = ''2024-01-02 00:00:00'' then Some 2460311.5
      else if s = ''2024-01-04 00:00:00'' then Some 2460313.5
      else None)"

definition sqlite_at :: "string \<Rightarrow> sqlite" where
  "sqlite_at now =
     \<lparr>connect_error = None, execute_error = None,
      CURRENT_TIMESTAMP = now, julianday = example_julianday\<rparr>"

definition sqlite_io_error :: sqlite where
  "sqlite_io_error =
     \<lparr>connect_error = None, execute_error = Some OperationalError,
      CURRENT_TIMESTAMP = ''2024-01-02 00:00:00'', julianday = example_julianday\<rparr>"

definition sqlite_cannot_open :: sqlite where
  "sqlite_cannot_open =
     \<lparr>connect_error = Some OperationalError, execute_error = None,
      CURRENT_TIMESTAMP = ''2024-01-02 00:00:00'', julianday = example_julianday\<rparr>"

definition example_incident :: incident_row where
  "example_incident =
     \<lparr>inc_id = 1, inc_title = ''Phishing mail'', inc_description = None,
      inc_threat_type = ''Phishing'', inc_severity = ''High'', inc_status = ''Open'',
      inc_created_at = ''2024-01-01 00:00:00'', inc_resolved_at = None,
      inc_resolution_time_hours = None, inc_assigned_to = None\<rparr>"

definition example_dataset :: dataset_row where
  "example_dataset =
     \<lparr>ds_id = 1, ds_name = ''Sales 2023'', ds_source_department = ''Sales'',
      ds_size_mb = 12, ds_row_count = 1000, ds_column_count = 8,
      ds_quality_score = Some 7, ds_last_accessed = None,
      ds_created_at = Some ''2024-01-01 00:00:00'', ds_sensitivity = Some ''Low''\<rparr>"

definition example_ticket :: ticket_row where
  "example_ticket =
     \<lparr>tkt_id = 1, tkt_title = ''Printer offline'', tkt_description = None,
      tkt_status = ''Open'', tkt_assigned_to = ''it'', tkt_current_stage = ''New'',
      tkt_priority = Some ''Medium'', tkt_created_at = ''2024-01-01 00:00:00'',
      tkt_resolved_at = None, tkt_time_in_stage_hours = None, tkt_category = None\<rparr>"

definition empty_database :: database where
  "empty_database =
     \<lparr>users = [], cyber_incidents = [], datasets_metadata = [], it_tickets = []\<rparr>"

definition example_database :: database where
  "example_database =
     \<lparr>users = [], cyber_incidents = [example_incident],
      datasets_metadata = [example_dataset], it_tickets = [example_ticket]\<rparr>"

text \<open>The incident resolved on 2 January, reopened, and resolved again on 4 January.\<close>

definition resolved_once :: database where
  "resolved_once =
     snd (update_incident_status (sqlite_at ''2024-01-02 00:00:00'') example_database 1 ''Resolved'')"

definition reopened :: database where
  "reopened = snd (update_incident_status (sqlite_at ''2024-01-02 00:00:00'') resolved_once 1 ''Open'')"

definition resolved_twice :: database where
  "resolved_twice =
     snd (update_incident_status (sqlite_at ''2024-01-04 00:00:00'') reopened 1 ''Resolved'')"

text \<open>The ticket resolved on 2 January.\<close>

definition ticket_resolved :: database where
  "ticket_resolved =
     snd (update_ticket_status (sqlite_at ''2024-01-02 00:00:00'') example_database 1
            ''Resolved'' ''Resolved'')"

text \<open>
  A stand-in for \<open>bcrypt\<close>: the hash is the first four characters of the salt, a dollar
  sign and the password; a hash without the dollar sign at that place is malformed.
\<close>

definition example_bcrypt :: bcrypt where
  "example_bcrypt =
     \<lparr>hashpw = (\<lambda>password salt. Returned (take 4 salt @ ''$'' @ password)),
      checkpw = (\<lambda>password hashed.
        if length hashed < 5 \<or> hashed ! 4 \<noteq> CHR ''$'' then Raised ValueError
        else Returned (take 4 hashed @ ''$'' @ password = hashed))\<rparr>"

definition example_gensalt :: "nat \<Rightarrow> string" where
  "example_gensalt k = (if k = 0 then ''s0aa'' else if k = 1 then ''s1bb''
                        else if k = 2 then ''s2cc'' else ''s3dd'')"

text \<open>The empty store after \<open>register("alice", "pw1", "admin")\<close>.\<close>

definition alice_registered :: database where
  "alice_registered =
     snd (register_user (sqlite_at ''2024-01-01 00:00:00'') (sqlite_at ''2024-01-01 00:00:00'')
            example_bcrypt ''s9zz'' empty_database ''alice'' ''pw1'' ''admin'')"

text \<open>
  A store in which only the default user \<open>admin\<close> is present, with a hash that is not the
  seeded one, and the store that the first \<open>init_database\<close> makes of the empty one.
\<close>

definition partly_seeded :: database where
  "partly_seeded =
     \<lparr>users = [\<lparr>u_username = ''admin'', u_password_hash = ''changed'', u_role = ''admin'',
                u_created_at = ''2023-12-31 00:00:00''\<rparr>],
      cyber_incidents = [], datasets_metadata = [], it_tickets = []\<rparr>"

definition fresh_store :: database where
  "fresh_store =
     snd (init_database (sqlite_at ''2024-01-01 00:00:00'') example_bcrypt example_gensalt
            empty_database)"

section \<open>Access to the dashboards\<close>

lemma known_roles:
  "map_of DASHBOARD_PERMISSIONS r \<noteq> None \<longleftrightarrow>
     r = ''admin'' \<or> r = ''cybersecurity'' \<or> r = ''data_science'' \<or> r = ''it_operations''"
  by (simp add: DASHBOARD_PERMISSIONS_def)

lemma authorize_unknown: "map_of DASHBOARD_PERMISSIONS r = None \<Longrightarrow> \<not> authorize r x"
  by (simp add: authorize_def allowed_dashboards_def)

lemma authorize_gated:
  "authorize r ''cybersecurity'' \<longleftrightarrow> r = ''admin'' \<or> r = ''cybersecurity''"
  "authorize r ''data_science'' \<longleftrightarrow> r = ''admin'' \<or> r = ''data_science''"
  "authorize r ''it_operations'' \<longleftrightarrow> r = ''admin'' \<or> r = ''it_operations''"
  by (simp_all add: authorize_def allowed_dashboards_def DASHBOARD_PERMISSIONS_def)

lemma authorize_open:
  "authorize r ''executive'' \<longleftrightarrow> map_of DASHBOARD_PERMISSIONS r \<noteq> None"
  "authorize r ''ai_assistant'' \<longleftrightarrow> map_of DASHBOARD_PERMISSIONS r \<noteq> None"
  by (simp_all add: authorize_def allowed_dashboards_def DASHBOARD_PERMISSIONS_def)

lemma show_gated:
  "show_dashboard r ''Cybersecurity'' =
     (if authorize r ''cybersecurity'' then Display CyberSecurityDashboard else Permission_Error)"
  "show_dashboard r ''Data Science'' =
     (if authorize r ''data_science'' then Display DataScienceDashboard else Permission_Error)"
  "show_dashboard r ''IT Operations'' =
     (if authorize r ''it_operations'' then Display ITOperationsDashboard else Permission_Error)"
  by (simp_all add: show_dashboard_def authorize_gated)

lemma show_open:
  "show_dashboard r ''Executive Dashboard'' = Display ExecutiveDashboard"
  "show_dashboard r ''AI Assistant'' = Display AIAssistantDashboard"
  by (simp_all add: show_dashboard_def)

lemma gated:
  assumes "d \<in> {CyberSecurityDashboard, DataScienceDashboard, ITOperationsDashboard}"
  shows "show_dashboard r (nav_label d) =
       (if authorize r (dashboard_module d) then Display d else Permission_Error)"
proof (cases d)
  case CyberSecurityDashboard
  then show ?thesis by (simp add: show_gated)
next
  case DataScienceDashboard
  then show ?thesis by (simp add: show_gated)
next
  case ITOperationsDashboard
  then show ?thesis by (simp add: show_gated)
qed (use assms in simp_all)

lemma known_agree:
  assumes "map_of DASHBOARD_PERMISSIONS k \<noteq> None"
  shows "(show_dashboard k (nav_label d) = Display d) = authorize k (dashboard_module d)"
proof (cases d)
  case ExecutiveDashboard
  then show ?thesis using assms by (simp add: show_open authorize_open)
next
  case AIAssistantDashboard
  then show ?thesis using assms by (simp add: show_open authorize_open)
next
  case CyberSecurityDashboard
  then show ?thesis by (simp add: show_gated)
next
  case DataScienceDashboard
  then show ?thesis by (simp add: show_gated)
next
  case ITOperationsDashboard
  then show ?thesis by (simp add: show_gated)
qed

text \<open>
  Claim C1, as the code has it. The three dashboards with a role check (Cybersecurity,
  Data Science, IT Operations) are drawn exactly when the role table allows the role,
  and refused with an error otherwise: a role outside the table is refused each of
  them, \<open>it_operations\<close> is refused Cybersecurity, \<open>admin\<close> gets it. The accessor
  \<open>authorize\<close> over the table is fail-closed. The Executive and the AI Assistant
  dashboards are drawn for every role, with no check; for the four roles of the table
  this is what the table says, so for them drawing and table agree on all five.
\<close>

theorem C1_rendering_and_role_table:
  "(d \<in> {CyberSecurityDashboard, DataScienceDashboard, ITOperationsDashboard} \<longrightarrow>
      show_dashboard r (nav_label d) =
        (if authorize r (dashboard_module d) then Display d else Permission_Error))
   \<and> (map_of DASHBOARD_PERMISSIONS u = None \<longrightarrow> \<not> authorize u x)
   \<and> (map_of DASHBOARD_PERMISSIONS u = None \<longrightarrow>
        d \<in> {CyberSecurityDashboard, DataScienceDashboard, ITOperationsDashboard} \<longrightarrow>
        show_dashboard u (nav_label d) = Permission_Error)
   \<and> \<not> authorize ''it_operations'' ''cybersecurity''
   \<and> show_dashboard ''it_operations'' ''Cybersecurity'' = Permission_Error
   \<and> authorize ''admin'' ''cybersecurity''
   \<and> show_dashboard ''admin'' ''Cybersecurity'' = Display CyberSecurityDashboard
   \<and> show_dashboard r (nav_label ExecutiveDashboard) = Display ExecutiveDashboard
   \<and> show_dashboard r (nav_label AIAssistantDashboard) = Display AIAssistantDashboard
   \<and> (map_of DASHBOARD_PERMISSIONS k \<noteq> None \<longrightarrow>
        (show_dashboard k (nav_label e) = Display e) = authorize k (dashboard_module e))"
proof -
  have a: "d \<in> {CyberSecurityDashboard, DataScienceDashboard, ITOperationsDashboard} \<longrightarrow>
      show_dashboard r (nav_label d) =
        (if authorize r (dashboard_module d) then Display d else Permission_Error)"
    using gated [of d r] by blast
  have b: "map_of DASHBOARD_PERMISSIONS u = None \<longrightarrow> \<not> authorize u x"
    using authorize_unknown by blast
  have c: "map_of DASHBOARD_PERMISSIONS u = None \<longrightarrow>
        d \<in> {CyberSecurityDashboard, DataScienceDashboard, ITOperationsDashboard} \<longrightarrow>
        show_dashboard u (nav_label d) = Permission_Error"
    using gated [of d u] authorize_unknown [of u "dashboard_module d"] by presburger
  have f: "\<not> authorize ''it_operations'' ''cybersecurity''"
    and g: "authorize ''admin'' ''cybersecurity''"
    by (simp_all add: authorize_gated)
  have h: "show_dashboard ''it_operations'' ''Cybersecurity'' = Permission_Error"
    and i: "show_dashboard ''admin'' ''Cybersecurity'' = Display CyberSecurityDashboard"
    by (simp_all add: show_gated authorize_gated)
  have j: "show_dashboard r (nav_label ExecutiveDashboard) = Display ExecutiveDashboard"
    and k: "show_dashboard r (nav_label AIAssistantDashboard) = Display AIAssistantDashboard"
    by (simp_all add: show_open)
  have l: "map_of DASHBOARD_PERMISSIONS k \<noteq> None \<longrightarrow>
        (show_dashboard k (nav_label e) = Display e) = authorize k (dashboard_module e)"
    using known_agree by blast
  from a b c f h g i j k l show ?thesis by blast
qed

text \<open>
  Claim C1, the theorem at concrete roles: the unknown role and the Cybersecurity
  dashboard, and \<open>data_science\<close>, a role of the table, on the Executive dashboard.
\<close>

theorem C1_rendering_and_role_table_witness:
  "CyberSecurityDashboard \<in> {CyberSecurityDashboard, DataScienceDashboard, ITOperationsDashboard}
   \<and> map_of DASHBOARD_PERMISSIONS ''unknown_role'' = None
   \<and> map_of DASHBOARD_PERMISSIONS ''data_science'' \<noteq> None
   \<and> \<not> authorize ''unknown_role'' ''executive''
   \<and> show_dashboard ''unknown_role'' ''Cybersecurity'' = Permission_Error
   \<and> show_dashboard ''data_science'' ''Cybersecurity'' = Permission_Error
   \<and> authorize ''data_science'' ''executive''
   \<and> show_dashboard ''data_science'' ''Executive Dashboard'' = Display ExecutiveDashboard"
proof -
  have u: "map_of DASHBOARD_PERMISSIONS ''unknown_role'' = None"
    and k: "map_of DASHBOARD_PERMISSIONS ''data_science'' \<noteq> None"
    by (simp_all add: DASHBOARD_PERMISSIONS_def)
  have n: "\<not> authorize ''data_science'' ''cybersecurity''"
    by (simp add: authorize_gated)
  show ?thesis
    using u k n
      C1_rendering_and_role_table [where d = CyberSecurityDashboard and r = "''data_science''"
        and u = "''unknown_role''" and x = "''executive''" and k = "''data_science''"
        and e = ExecutiveDashboard]
    by simp blast
qed

text \<open>
  Claim C1 as stated fails: a role outside the four known roles, which the table denies
  every dashboard, is shown the Executive dashboard and the AI Assistant dashboard.
\<close>

theorem C1_unknown_role_sees_executive:
  "map_of DASHBOARD_PERMISSIONS ''unknown_role'' = None
   \<and> \<not> authorize ''unknown_role'' (dashboard_module ExecutiveDashboard)
   \<and> show_dashboard ''unknown_role'' (nav_label ExecutiveDashboard) = Display ExecutiveDashboard
   \<and> \<not> authorize ''unknown_role'' (dashboard_module AIAssistantDashboard)
   \<and> show_dashboard ''unknown_role'' (nav_label AIAssistantDashboard) = Display AIAssistantDashboard"
  by (simp add: show_dashboard_def authorize_def allowed_dashboards_def DASHBOARD_PERMISSIONS_def)

section \<open>Status updates\<close>

lemma map_upd_absent: "\<forall>r \<in> set rows. \<not> p r \<Longrightarrow> map (\<lambda>r. if p r then f r else r) rows = rows"
  by (induction rows) auto

lemma update_incident_status_rows:
  "cyber_incidents (snd (update_incident_status env db incident_id status)) =
     (if connect_error env = None \<and> execute_error env = None
      then map (\<lambda>r. if inc_id r = incident_id then incident_set env status r else r)
             (cyber_incidents db)
      else cyber_incidents db)"
  by (simp add: update_incident_status_def sql_update_def split: option.splits)

lemma update_incident_status_other_tables:
  "users (snd (update_incident_status env db incident_id status)) = users db"
  "datasets_metadata (snd (update_incident_status env db incident_id status)) = datasets_metadata db"
  "it_tickets (snd (update_incident_status env db incident_id status)) = it_tickets db"
  by (simp_all add: update_incident_status_def sql_update_def split: option.splits)

lemma update_incident_status_result:
  "connect_error env = None \<Longrightarrow> execute_error env = None \<Longrightarrow>
     fst (update_incident_status env db incident_id status) =
       Returned (\<exists>r \<in> set (cyber_incidents db). inc_id r = incident_id)"
  by (simp add: update_incident_status_def sql_update_def filter_empty_conv)

lemma update_incident_status_nth:
  "i < length (cyber_incidents db) \<Longrightarrow>
     cyber_incidents (snd (update_incident_status env db incident_id status)) ! i =
       (if connect_error env = None \<and> execute_error env = None
           \<and> inc_id (cyber_incidents db ! i) = incident_id
        then incident_set env status (cyber_incidents db ! i)
        else cyber_incidents db ! i)"
  by (simp add: update_incident_status_rows)

lemma update_ticket_status_rows:
  "it_tickets (snd (update_ticket_status env db ticket_id status current_stage)) =
     (if connect_error env = None \<and> execute_error env = None
      then map (\<lambda>r. if tkt_id r = ticket_id then ticket_set env status current_stage r else r)
             (it_tickets db)
      else it_tickets db)"
  by (simp add: update_ticket_status_def sql_update_def split: option.splits)

lemma update_ticket_status_result:
  "connect_error env = None \<Longrightarrow> execute_error env = None \<Longrightarrow>
     fst (update_ticket_status env db ticket_id status current_stage) =
       Returned (\<exists>r \<in> set (it_tickets db). tkt_id r = ticket_id)"
  by (simp add: update_ticket_status_def sql_update_def filter_empty_conv)

lemma update_ticket_status_nth:
  "i < length (it_tickets db) \<Longrightarrow>
     it_tickets (snd (update_ticket_status env db ticket_id status current_stage)) ! i =
       (if connect_error env = None \<and> execute_error env = None
           \<and> tkt_id (it_tickets db ! i) = ticket_id
        then ticket_set env status current_stage (it_tickets db ! i)
        else it_tickets db ! i)"
  by (simp add: update_ticket_status_rows)

lemma update_incident_status_absent:
  "connect_error env = None \<Longrightarrow> execute_error env = None \<Longrightarrow>
   \<forall>r \<in> set (cyber_incidents db). inc_id r \<noteq> incident_id \<Longrightarrow>
     update_incident_status env db incident_id status = (Returned False, db)"
  by (simp add: update_incident_status_def sql_update_def map_upd_absent [where p = "\<lambda>r. inc_id r = incident_id"]
        filter_empty_conv)

lemma update_ticket_status_absent:
  "connect_error env = None \<Longrightarrow> execute_error env = None \<Longrightarrow>
   \<forall>r \<in> set (it_tickets db). tkt_id r \<noteq> ticket_id \<Longrightarrow>
     update_ticket_status env db ticket_id status current_stage = (Returned False, db)"
  by (simp add: update_ticket_status_def sql_update_def map_upd_absent [where p = "\<lambda>r. tkt_id r = ticket_id"]
        filter_empty_conv)

lemma incident_set_fields:
  "inc_resolution_time_hours (incident_set env status r) =
     (if status = ''Resolved'' \<and> inc_resolution_time_hours r = None
      then elapsed_hours env (inc_created_at r) else inc_resolution_time_hours r)"
  "inc_resolved_at (incident_set env status r) =
     (if status = ''Resolved'' then Some (CURRENT_TIMESTAMP env) else inc_resolved_at r)"
  "inc_status (incident_set env status r) = status"
  "inc_id (incident_set env status r) = inc_id r"
  "inc_created_at (incident_set env status r) = inc_created_at r"
  by (simp_all add: incident_set_def)

lemma ticket_set_fields:
  "tkt_resolved_at (ticket_set env status current_stage r) =
     (if status = ''Resolved'' \<or> status = ''Closed''
      then Some (CURRENT_TIMESTAMP env) else tkt_resolved_at r)"
  "tkt_status (ticket_set env status current_stage r) = status"
  "tkt_current_stage (ticket_set env status current_stage r) = current_stage"
  "tkt_id (ticket_set env status current_stage r) = tkt_id r"
  by (simp_all add: ticket_set_def)

text \<open>
  Claim C2: \<open>resolution_time_hours\<close> of a security incident is set at most once. An
  update never adds a row; a value that is set survives every later call of
  \<open>update_incident_status\<close>, whatever the status and whether or not the statement fails;
  a status other than Resolved leaves the column as it is; and the update to Resolved
  of an incident whose column is still NULL stores the hours from \<open>created_at\<close> to the
  \<open>CURRENT_TIMESTAMP\<close> of the statement, computed by the store from the two Julian days
  (the method takes no such argument).
\<close>

theorem C2_resolution_time_hours_set_once:
  assumes "i < length (cyber_incidents db)"
  shows
  "length (cyber_incidents (snd (update_incident_status env db incident_id status)))
     = length (cyber_incidents db)
   \<and> (inc_resolution_time_hours (cyber_incidents db ! i) = Some v \<longrightarrow>
        inc_resolution_time_hours
          (cyber_incidents (snd (update_incident_status env db incident_id status)) ! i) = Some v)
   \<and> (status \<noteq> ''Resolved'' \<longrightarrow>
        inc_resolution_time_hours
          (cyber_incidents (snd (update_incident_status env db incident_id status)) ! i)
        = inc_resolution_time_hours (cyber_incidents db ! i))
   \<and> (connect_error env = None \<and> execute_error env = None
        \<and> inc_id (cyber_incidents db ! i) = incident_id \<and> status = ''Resolved''
        \<and> inc_resolution_time_hours (cyber_incidents db ! i) = None
        \<and> julianday env (CURRENT_TIMESTAMP env) = Some j_now
        \<and> julianday env (inc_created_at (cyber_incidents db ! i)) = Some j_created \<longrightarrow>
        inc_resolution_time_hours
          (cyber_incidents (snd (update_incident_status env db incident_id status)) ! i)
        = Some ((j_now - j_created) * 24))"
proof -
  let ?r = "cyber_incidents db ! i"
  let ?r' = "cyber_incidents (snd (update_incident_status env db incident_id status)) ! i"
  have len: "length (cyber_incidents (snd (update_incident_status env db incident_id status)))
     = length (cyber_incidents db)"
    by (simp add: update_incident_status_rows)
  have r': "?r' = (if connect_error env = None \<and> execute_error env = None \<and> inc_id ?r = incident_id
                  then incident_set env status ?r else ?r)"
    using assms by (rule update_incident_status_nth)
  have keep: "inc_resolution_time_hours ?r = Some v \<longrightarrow> inc_resolution_time_hours ?r' = Some v"
    by (simp add: r' incident_set_fields)
  have other: "status \<noteq> ''Resolved'' \<longrightarrow> inc_resolution_time_hours ?r' = inc_resolution_time_hours ?r"
    by (simp add: r' incident_set_fields)
  have first: "connect_error env = None \<and> execute_error env = None
        \<and> inc_id ?r = incident_id \<and> status = ''Resolved''
        \<and> inc_resolution_time_hours ?r = None
        \<and> julianday env (CURRENT_TIMESTAMP env) = Some j_now
        \<and> julianday env (inc_created_at ?r) = Some j_created \<longrightarrow>
        inc_resolution_time_hours ?r' = Some ((j_now - j_created) * 24)"
    using r' by (auto simp: incident_set_fields elapsed_hours_def)
  from len keep other first show ?thesis by blast
qed

lemma example_database_incidents: "cyber_incidents example_database = [example_incident]"
  by (simp add: example_database_def)

lemma sqlite_at_simps:
  "connect_error (sqlite_at t) = None" "execute_error (sqlite_at t) = None"
  "CURRENT_TIMESTAMP (sqlite_at t) = t" "julianday (sqlite_at t) = example_julianday"
  by (simp_all add: sqlite_at_def)

lemma example_julianday_simps:
  "example_julianday ''2024-01-01 00:00:00'' = Some 2460310.5"
  "example_julianday ''2024-01-02 00:00:00'' = Some 2460311.5"
  "example_julianday ''2024-01-04 00:00:00'' = Some 2460313.5"
  by (simp_all add: example_julianday_def)

lemma resolved_once_incidents:
  "cyber_incidents resolved_once =
     [example_incident\<lparr>inc_status := ''Resolved'',
        inc_resolved_at := Some ''2024-01-02 00:00:00'',
        inc_resolution_time_hours := Some 24\<rparr>]"
  by (simp add: resolved_once_def update_incident_status_rows example_database_incidents
        sqlite_at_simps incident_set_def elapsed_hours_def example_julianday_simps example_incident_def)

lemma reopened_incidents:
  "cyber_incidents reopened =
     [example_incident\<lparr>inc_status := ''Open'',
        inc_resolved_at := Some ''2024-01-02 00:00:00'',
        inc_resolution_time_hours := Some 24\<rparr>]"
  by (simp add: reopened_def update_incident_status_rows resolved_once_incidents
        sqlite_at_simps incident_set_def example_incident_def)


text \<open>
  Claim C2 on the example incident, created on 1 January: resolved on 2 January it gets
  24 hours; reopened, and resolved again on 4 January, it keeps 24 hours.
\<close>

theorem C2_resolution_time_hours_set_once_witness:
  "0 < length (cyber_incidents example_database)
   \<and> inc_resolution_time_hours (cyber_incidents example_database ! 0) = None
   \<and> inc_resolution_time_hours (cyber_incidents resolved_once ! 0) = Some 24
   \<and> inc_resolution_time_hours (cyber_incidents reopened ! 0) = Some 24
   \<and> inc_resolution_time_hours (cyber_incidents resolved_twice ! 0) = Some 24"
proof -
  have l0: "0 < length (cyber_incidents example_database)"
    and n0: "inc_resolution_time_hours (cyber_incidents example_database ! 0) = None"
    and id0: "inc_id (cyber_incidents example_database ! 0) = 1"
    and c0: "inc_created_at (cyber_incidents example_database ! 0) = ''2024-01-01 00:00:00''"
    by (simp_all add: example_database_incidents example_incident_def)
  have s1: "inc_resolution_time_hours (cyber_incidents resolved_once ! 0) = Some 24"
    using C2_resolution_time_hours_set_once [OF l0,
        where env = "sqlite_at ''2024-01-02 00:00:00''" and incident_id = 1
          and status = "''Resolved''" and j_now = "2460311.5" and j_created = "2460310.5"]
    by (simp add: n0 id0 c0 sqlite_at_simps example_julianday_simps resolved_once_def)
  have l1: "0 < length (cyber_incidents resolved_once)"
    by (simp add: resolved_once_incidents)
  have s2: "inc_resolution_time_hours (cyber_incidents reopened ! 0) = Some 24"
    using C2_resolution_time_hours_set_once [OF l1,
        where env = "sqlite_at ''2024-01-02 00:00:00''" and incident_id = 1
          and status = "''Open''" and v = 24] s1
    by (simp add: reopened_def)
  have l2: "0 < length (cyber_incidents reopened)"
    by (simp add: reopened_incidents)
  have s3: "inc_resolution_time_hours (cyber_incidents resolved_twice ! 0) = Some 24"
    using C2_resolution_time_hours_set_once [OF l2,
        where env = "sqlite_at ''2024-01-04 00:00:00''" and incident_id = 1
          and status = "''Resolved''" and v = 24] s2
    by (simp add: resolved_twice_def)
  from l0 n0 s1 s2 s3 show ?thesis by blast
qed

text \<open>
  Claim C10: on an incident that is already resolved (\<open>resolved_at\<close> and
  \<open>resolution_time_hours\<close> both set), \<open>update_incident_status\<close> with the status Resolved
  overwrites \<open>resolved_at\<close> with the current timestamp and leaves
  \<open>resolution_time_hours\<close>; with any other status it leaves both.
\<close>

theorem C10_resolved_at_is_overwritten:
  assumes "i < length (cyber_incidents db)"
    and "connect_error env = None" and "execute_error env = None"
    and "inc_id (cyber_incidents db ! i) = incident_id"
    and "inc_resolved_at (cyber_incidents db ! i) = Some t"
    and "inc_resolution_time_hours (cyber_incidents db ! i) = Some v"
  shows
  "(status = ''Resolved'' \<longrightarrow>
      inc_resolved_at
        (cyber_incidents (snd (update_incident_status env db incident_id status)) ! i)
        = Some (CURRENT_TIMESTAMP env)
      \<and> inc_resolution_time_hours
        (cyber_incidents (snd (update_incident_status env db incident_id status)) ! i) = Some v)
   \<and> (status \<noteq> ''Resolved'' \<longrightarrow>
      inc_resolved_at
        (cyber_incidents (snd (update_incident_status env db incident_id status)) ! i) = Some t
      \<and> inc_resolution_time_hours
        (cyber_incidents (snd (update_incident_status env db incident_id status)) ! i) = Some v)"
proof -
  have "cyber_incidents (snd (update_incident_status env db incident_id status)) ! i
          = incident_set env status (cyber_incidents db ! i)"
    using assms(1-4) by (simp add: update_incident_status_nth)
  then show ?thesis
    using assms(5,6) by (auto simp: incident_set_fields)
qed

text \<open>
  Claim C10 on the incident resolved on 2 January: resolving it again on 4 January moves
  \<open>resolved_at\<close> to 4 January, setting it to In Progress does not; the 24 hours stay.
\<close>

theorem C10_resolved_at_is_overwritten_witness:
  "inc_resolved_at (cyber_incidents resolved_once ! 0) = Some ''2024-01-02 00:00:00''
   \<and> inc_resolution_time_hours (cyber_incidents resolved_once ! 0) = Some 24
   \<and> inc_resolved_at
       (cyber_incidents
          (snd (update_incident_status (sqlite_at ''2024-01-04 00:00:00'') resolved_once 1
                  ''Resolved'')) ! 0) = Some ''2024-01-04 00:00:00''
   \<and> inc_resolution_time_hours
       (cyber_incidents
          (snd (update_incident_status (sqlite_at ''2024-01-04 00:00:00'') resolved_once 1
                  ''Resolved'')) ! 0) = Some 24
   \<and> inc_resolved_at
       (cyber_incidents
          (snd (update_incident_status (sqlite_at ''2024-01-04 00:00:00'') resolved_once 1
                  ''In Progress'')) ! 0) = Some ''2024-01-02 00:00:00''
   \<and> inc_resolution_time_hours
       (cyber_incidents
          (snd (update_incident_status (sqlite_at ''2024-01-04 00:00:00'') resolved_once 1
                  ''In Progress'')) ! 0) = Some 24"
proof -
  have l: "0 < length (cyber_incidents resolved_once)"
    and i: "inc_id (cyber_incidents resolved_once ! 0) = 1"
    and t: "inc_resolved_at (cyber_incidents resolved_once ! 0) = Some ''2024-01-02 00:00:00''"
    and v: "inc_resolution_time_hours (cyber_incidents resolved_once ! 0) = Some 24"
    by (simp_all add: resolved_once_incidents example_incident_def)
  have c: "connect_error (sqlite_at ''2024-01-04 00:00:00'') = None"
    and e: "execute_error (sqlite_at ''2024-01-04 00:00:00'') = None"
    by (simp_all add: sqlite_at_simps)
  show ?thesis
    using t v C10_resolved_at_is_overwritten [OF l c e i t v, where status = "''Resolved''"]
      C10_resolved_at_is_overwritten [OF l c e i t v, where status = "''In Progress''"]
    by (simp add: sqlite_at_simps)
qed

lemma example_database_tickets: "it_tickets example_database = [example_ticket]"
  by (simp add: example_database_def)

lemma ticket_resolved_tickets:
  "it_tickets ticket_resolved =
     [example_ticket\<lparr>tkt_status := ''Resolved'', tkt_current_stage := ''Resolved'',
        tkt_resolved_at := Some ''2024-01-02 00:00:00''\<rparr>]"
  by (simp add: ticket_resolved_def update_ticket_status_rows example_database_tickets
        sqlite_at_simps ticket_set_def example_ticket_def)

text \<open>
  Claim C3, as the code has it: the combined update writes \<open>status\<close> and
  \<open>current_stage\<close> together and sets \<open>resolved_at\<close> to the current timestamp exactly when
  the new status is Resolved or Closed, on every such update: a value already there is
  overwritten. With any other status \<open>resolved_at\<close> is left as it is.
\<close>

theorem C3_resolved_at_on_every_resolving_update:
  assumes "i < length (it_tickets db)"
    and "connect_error env = None" and "execute_error env = None"
    and "tkt_id (it_tickets db ! i) = ticket_id"
  shows
  "tkt_status (it_tickets (snd (update_ticket_status env db ticket_id status current_stage)) ! i)
     = status
   \<and> tkt_current_stage
       (it_tickets (snd (update_ticket_status env db ticket_id status current_stage)) ! i)
     = current_stage
   \<and> (status = ''Resolved'' \<or> status = ''Closed'' \<longrightarrow>
        tkt_resolved_at
          (it_tickets (snd (update_ticket_status env db ticket_id status current_stage)) ! i)
        = Some (CURRENT_TIMESTAMP env))
   \<and> (status \<noteq> ''Resolved'' \<and> status \<noteq> ''Closed'' \<longrightarrow>
        tkt_resolved_at
          (it_tickets (snd (update_ticket_status env db ticket_id status current_stage)) ! i)
        = tkt_resolved_at (it_tickets db ! i))"
proof -
  have "it_tickets (snd (update_ticket_status env db ticket_id status current_stage)) ! i
          = ticket_set env status current_stage (it_tickets db ! i)"
    using assms by (simp add: update_ticket_status_nth)
  then show ?thesis
    by (auto simp: ticket_set_fields)
qed

text \<open>
  Claim C3 on the example ticket: resolved on 2 January it gets that timestamp; set to
  In Progress, its \<open>resolved_at\<close> stays NULL.
\<close>

theorem C3_resolved_at_on_every_resolving_update_witness:
  "0 < length (it_tickets example_database)
   \<and> tkt_id (it_tickets example_database ! 0) = 1
   \<and> tkt_resolved_at (it_tickets example_database ! 0) = None
   \<and> tkt_resolved_at (it_tickets ticket_resolved ! 0) = Some ''2024-01-02 00:00:00''
   \<and> tkt_status (it_tickets ticket_resolved ! 0) = ''Resolved''
   \<and> tkt_resolved_at
       (it_tickets
          (snd (update_ticket_status (sqlite_at ''2024-01-02 00:00:00'') example_database 1
                  ''In Progress'' ''In Progress'')) ! 0) = None"
proof -
  have l: "0 < length (it_tickets example_database)"
    and i: "tkt_id (it_tickets example_database ! 0) = 1"
    and n: "tkt_resolved_at (it_tickets example_database ! 0) = None"
    by (simp_all add: example_database_tickets example_ticket_def)
  have c: "connect_error (sqlite_at ''2024-01-02 00:00:00'') = None"
    and e: "execute_error (sqlite_at ''2024-01-02 00:00:00'') = None"
    by (simp_all add: sqlite_at_simps)
  show ?thesis
    using l i n
      C3_resolved_at_on_every_resolving_update [OF l c e i,
        where status = "''Resolved''" and current_stage = "''Resolved''"]
      C3_resolved_at_on_every_resolving_update [OF l c e i,
        where status = "''In Progress''" and current_stage = "''In Progress''"]
    by (simp add: sqlite_at_simps ticket_resolved_def)
qed

text \<open>
  Claim C3 as stated fails: the ticket resolved on 2 January and updated to the same
  status Resolved on 4 January has its \<open>resolved_at\<close> overwritten with 4 January.
\<close>

theorem C3_resolved_at_is_reset:
  "tkt_status (it_tickets ticket_resolved ! 0) = ''Resolved''
   \<and> tkt_resolved_at (it_tickets ticket_resolved ! 0) = Some ''2024-01-02 00:00:00''
   \<and> tkt_resolved_at
       (it_tickets
          (snd (update_ticket_status (sqlite_at ''2024-01-04 00:00:00'') ticket_resolved 1
                  ''Resolved'' ''Resolved'')) ! 0) = Some ''2024-01-04 00:00:00''"
  by (simp add: update_ticket_status_rows ticket_resolved_tickets sqlite_at_simps
        ticket_set_def example_ticket_def)

text \<open>
  Claim C5: when the statement runs, a status update on an id that no row has returns
  \<open>False\<close> and leaves the database as it was, no row added and none changed; on an id
  that a row has it returns \<open>True\<close>. This holds for incidents and for tickets.
\<close>

theorem C5_update_status_by_id:
  assumes "connect_error env = None" and "execute_error env = None"
  shows
  "((\<forall>r \<in> set (cyber_incidents db). inc_id r \<noteq> incident_id) \<longrightarrow>
      update_incident_status env db incident_id status = (Returned False, db))
   \<and> ((\<exists>r \<in> set (cyber_incidents db). inc_id r = incident_id) \<longrightarrow>
      fst (update_incident_status env db incident_id status) = Returned True)
   \<and> ((\<forall>r \<in> set (it_tickets db). tkt_id r \<noteq> ticket_id) \<longrightarrow>
      update_ticket_status env db ticket_id status current_stage = (Returned False, db))
   \<and> ((\<exists>r \<in> set (it_tickets db). tkt_id r = ticket_id) \<longrightarrow>
      fst (update_ticket_status env db ticket_id status current_stage) = Returned True)"
proof -
  have a: "(\<forall>r \<in> set (cyber_incidents db). inc_id r \<noteq> incident_id) \<longrightarrow>
      update_incident_status env db incident_id status = (Returned False, db)"
    using update_incident_status_absent [OF assms] by blast
  have b: "(\<exists>r \<in> set (cyber_incidents db). inc_id r = incident_id) \<longrightarrow>
      fst (update_incident_status env db incident_id status) = Returned True"
    by (simp add: update_incident_status_result [OF assms])
  have c: "(\<forall>r \<in> set (it_tickets db). tkt_id r \<noteq> ticket_id) \<longrightarrow>
      update_ticket_status env db ticket_id status current_stage = (Returned False, db)"
    using update_ticket_status_absent [OF assms] by blast
  have d: "(\<exists>r \<in> set (it_tickets db). tkt_id r = ticket_id) \<longrightarrow>
      fst (update_ticket_status env db ticket_id status current_stage) = Returned True"
    by (simp add: update_ticket_status_result [OF assms])
  from a b c d show ?thesis by blast
qed

text \<open>
  Claim C5 on the empty store, where id 9999 is unknown, and on the example store, where
  incident 1 and ticket 1 exist.
\<close>

theorem C5_update_status_by_id_witness:
  "update_incident_status (sqlite_at ''2024-01-02 00:00:00'') empty_database 9999 ''Resolved''
     = (Returned False, empty_database)
   \<and> update_ticket_status (sqlite_at ''2024-01-02 00:00:00'') empty_database 9999
       ''Resolved'' ''Resolved'' = (Returned False, empty_database)
   \<and> fst (update_incident_status (sqlite_at ''2024-01-02 00:00:00'') example_database 1
            ''Resolved'') = Returned True
   \<and> fst (update_ticket_status (sqlite_at ''2024-01-02 00:00:00'') example_database 1
            ''Resolved'' ''Resolved'') = Returned True"
proof -
  have c: "connect_error (sqlite_at ''2024-01-02 00:00:00'') = None"
    and e: "execute_error (sqlite_at ''2024-01-02 00:00:00'') = None"
    by (simp_all add: sqlite_at_simps)
  have em: "cyber_incidents empty_database = []" "it_tickets empty_database = []"
    by (simp_all add: empty_database_def)
  have ex: "inc_id example_incident = 1" "tkt_id example_ticket = 1"
    by (simp_all add: example_incident_def example_ticket_def)
  show ?thesis
    using C5_update_status_by_id [OF c e, where db = empty_database and incident_id = 9999
        and ticket_id = 9999 and status = "''Resolved''" and current_stage = "''Resolved''"]
      C5_update_status_by_id [OF c e, where db = example_database and incident_id = 1
        and ticket_id = 1 and status = "''Resolved''" and current_stage = "''Resolved''"]
    by (simp add: em ex example_database_incidents example_database_tickets)
qed

section \<open>Errors of the storage\<close>

lemma writes_on_execute_error:
  assumes "connect_error env = None" and "execute_error env = Some e"
  shows "update_incident_status env db n status = (Returned False, db)"
    and "update_ticket_status env db n status current_stage = (Returned False, db)"
    and "update_dataset_quality env db n quality_score = (Returned False, db)"
    and "delete_incident env db n = (Returned False, db)"
    and "delete_it_ticket env db n = (Returned False, db)"
    and "delete_dataset env db n = (Returned False, db)"
  using assms
  by (simp_all add: update_incident_status_def update_ticket_status_def
        update_dataset_quality_def delete_incident_def delete_it_ticket_def delete_dataset_def)

lemma writes_on_connect_error:
  assumes "connect_error env = Some e"
  shows "update_incident_status env db n status = (Raised e, db)"
    and "update_ticket_status env db n status current_stage = (Raised e, db)"
    and "update_dataset_quality env db n quality_score = (Raised e, db)"
    and "delete_incident env db n = (Raised e, db)"
    and "delete_it_ticket env db n = (Raised e, db)"
    and "delete_dataset env db n = (Raised e, db)"
  using assms
  by (simp_all add: update_incident_status_def update_ticket_status_def
        update_dataset_quality_def delete_incident_def delete_it_ticket_def delete_dataset_def)

lemma reads_on_error:
  assumes "connect_error env = Some e \<or> (connect_error env = None \<and> execute_error env = Some e)"
  shows "get_user env db username = Raised e"
    and "get_statistics env db = Raised e"
  using assms by (auto simp: get_user_def get_statistics_def)

lemma create_user_on_execute_error:
  assumes "connect_error env = None" and "execute_error env = Some e" and "e \<noteq> IntegrityError"
  shows "create_user env db username password_hash role = (Raised e, db)"
  using assms by (simp add: create_user_def)

text \<open>
  Claim C4, as the code has it. In the status updates, the quality update and the three
  deletes, an error of the storage while the statement or the commit runs is caught by
  \<open>except Exception\<close> and becomes the \<open>False\<close> that also means "no such row", the
  database unchanged; only an error of \<open>get_connection\<close>, which is called before the
  \<open>try\<close>, leaves the method as an exception. The reads \<open>get_user\<close> and \<open>get_statistics\<close>
  have no handler: every error of the storage leaves them as an exception, and so does
  every error but \<open>IntegrityError\<close> in \<open>create_user\<close>.
\<close>

theorem C4_storage_errors:
  "(connect_error env = None \<and> execute_error env = Some e \<longrightarrow>
      update_incident_status env db n status = (Returned False, db)
      \<and> update_ticket_status env db n status current_stage = (Returned False, db)
      \<and> update_dataset_quality env db n quality_score = (Returned False, db)
      \<and> delete_incident env db n = (Returned False, db)
      \<and> delete_it_ticket env db n = (Returned False, db)
      \<and> delete_dataset env db n = (Returned False, db)
      \<and> get_user env db username = Raised e
      \<and> get_statistics env db = Raised e
      \<and> (e \<noteq> IntegrityError \<longrightarrow>
           create_user env db username password_hash role = (Raised e, db)))
   \<and> (connect_error env = Some e \<longrightarrow>
      update_incident_status env db n status = (Raised e, db)
      \<and> update_ticket_status env db n status current_stage = (Raised e, db)
      \<and> update_dataset_quality env db n quality_score = (Raised e, db)
      \<and> delete_incident env db n = (Raised e, db)
      \<and> delete_it_ticket env db n = (Raised e, db)
      \<and> delete_dataset env db n = (Raised e, db)
      \<and> get_user env db username = Raised e
      \<and> get_statistics env db = Raised e)"
proof (intro conjI impI)
  assume h: "connect_error env = None \<and> execute_error env = Some e"
  then have c: "connect_error env = None" and x: "execute_error env = Some e"
    by simp_all
  show "update_incident_status env db n status = (Returned False, db)"
    and "update_ticket_status env db n status current_stage = (Returned False, db)"
    and "update_dataset_quality env db n quality_score = (Returned False, db)"
    and "delete_incident env db n = (Returned False, db)"
    and "delete_it_ticket env db n = (Returned False, db)"
    and "delete_dataset env db n = (Returned False, db)"
    by (rule writes_on_execute_error [OF c x])+
  show "get_user env db username = Raised e" and "get_statistics env db = Raised e"
    using h by (simp_all add: reads_on_error)
  show "create_user env db username password_hash role = (Raised e, db)"
    if "e \<noteq> IntegrityError"
    using that by (rule create_user_on_execute_error [OF c x])
next
  assume c: "connect_error env = Some e"
  show "update_incident_status env db n status = (Raised e, db)"
    and "update_ticket_status env db n status current_stage = (Raised e, db)"
    and "update_dataset_quality env db n quality_score = (Raised e, db)"
    and "delete_incident env db n = (Raised e, db)"
    and "delete_it_ticket env db n = (Raised e, db)"
    and "delete_dataset env db n = (Raised e, db)"
    by (rule writes_on_connect_error [OF c])+
  show "get_user env db username = Raised e" and "get_statistics env db = Raised e"
    using c by (simp_all add: reads_on_error)
qed

lemma sqlite_io_error_simps:
  "connect_error sqlite_io_error = None" "execute_error sqlite_io_error = Some OperationalError"
  by (simp_all add: sqlite_io_error_def)

lemma sqlite_cannot_open_simps:
  "connect_error sqlite_cannot_open = Some OperationalError"
  by (simp add: sqlite_cannot_open_def)

text \<open>
  Claim C4 on the example store, once with an I/O error during the statement and once
  with a database file that cannot be opened.
\<close>

theorem C4_storage_errors_witness:
  "connect_error sqlite_io_error = None
   \<and> execute_error sqlite_io_error = Some OperationalError
   \<and> connect_error sqlite_cannot_open = Some OperationalError
   \<and> update_ticket_status sqlite_io_error example_database 1 ''Closed'' ''Resolved''
       = (Returned False, example_database)
   \<and> update_dataset_quality sqlite_io_error example_database 1 9
       = (Returned False, example_database)
   \<and> delete_dataset sqlite_io_error example_database 1 = (Returned False, example_database)
   \<and> get_statistics sqlite_io_error example_database = Raised OperationalError
   \<and> create_user sqlite_io_error example_database ''alice'' ''hash'' ''admin''
       = (Raised OperationalError, example_database)
   \<and> delete_incident sqlite_cannot_open example_database 1
       = (Raised OperationalError, example_database)"
  using C4_storage_errors [where env = sqlite_io_error and e = OperationalError
      and db = example_database and n = 1 and status = "''Closed''"
      and current_stage = "''Resolved''" and quality_score = 9 and username = "''alice''"
      and password_hash = "''hash''" and role = "''admin''"]
    C4_storage_errors [where env = sqlite_cannot_open and e = OperationalError
      and db = example_database and n = 1]
  by (simp add: sqlite_io_error_simps sqlite_cannot_open_simps)

text \<open>
  Claim C4 as stated fails in both directions: with an I/O error during the statement,
  the status update and the delete of a row that exists return \<open>False\<close>, as for a row
  that does not exist, and the read \<open>get_user\<close> raises.
\<close>

theorem C4_write_error_becomes_false:
  "inc_id (cyber_incidents example_database ! 0) = 1
   \<and> update_incident_status sqlite_io_error example_database 1 ''Resolved''
       = (Returned False, example_database)
   \<and> tkt_id (it_tickets example_database ! 0) = 1
   \<and> delete_it_ticket sqlite_io_error example_database 1 = (Returned False, example_database)
   \<and> get_user sqlite_io_error example_database ''admin'' = Raised OperationalError"
  by (simp add: update_incident_status_def delete_it_ticket_def get_user_def
        sqlite_io_error_simps example_database_incidents example_database_tickets
        example_incident_def example_ticket_def)

section \<open>Registration and login\<close>

lemma find_append_absent:
  "\<forall>r \<in> set rows. \<not> p r \<Longrightarrow> find p (rows @ [row]) = (if p row then Some row else None)"
  by (induction rows) auto

lemma find_present: "\<exists>r \<in> set rows. p r \<Longrightarrow> \<exists>r. find p rows = Some r"
  by (induction rows) auto

lemma create_user_True:
  assumes "create_user env db username h role = (Returned True, db1)"
  shows "connect_error env = None \<and> execute_error env = None
         \<and> username \<notin> set (map u_username (users db))
         \<and> db1 = db\<lparr>users := users db @
                  [\<lparr>u_username = username, u_password_hash = h,
                    u_role = role, u_created_at = CURRENT_TIMESTAMP env\<rparr>]\<rparr>"
  using assms by (auto simp: create_user_def split: option.splits if_splits)

lemma register_user_True:
  assumes "register_user env_get env_create lib salt db username password role = (Returned True, db1)"
  shows "\<exists>h. hashpw lib password salt = Returned h
           \<and> create_user env_create db username h role = (Returned True, db1)"
  using assms
  by (auto simp: register_user_def hash_password_def
        split: outcome.splits option.splits prod.splits if_splits)

lemma get_user_after_insert:
  assumes "connect_error env = None" and "execute_error env = None"
    and "username \<notin> set (map u_username (users db))"
  shows "get_user env
           (db\<lparr>users := users db @
                  [\<lparr>u_username = username, u_password_hash = h,
                    u_role = role, u_created_at = t\<rparr>]\<rparr>) username
         = Returned (Some \<lparr>dict_username = username, dict_password_hash = h, dict_role = role\<rparr>)"
proof -
  have "\<forall>r \<in> set (users db). \<not> u_username r = username"
    using assms(3) by auto
  then have "find (\<lambda>r. u_username r = username)
               (users db @ [\<lparr>u_username = username, u_password_hash = h,
                    u_role = role, u_created_at = t\<rparr>])
             = Some \<lparr>u_username = username, u_password_hash = h,
                    u_role = role, u_created_at = t\<rparr>"
    by (simp add: find_append_absent)
  then show ?thesis
    using assms(1,2) by (simp add: get_user_def)
qed

lemma register_user_existing:
  assumes "\<exists>r \<in> set (users db). u_username r = username"
  shows "register_user env_get env_create lib salt db username password role = (Returned False, db)"
proof -
  obtain r where "find (\<lambda>r. u_username r = username) (users db) = Some r"
    using find_present [OF assms] by blast
  then have "(\<exists>e. get_user env_get db username = Raised e)
      \<or> (\<exists>u. get_user env_get db username = Returned (Some u))"
    by (simp add: get_user_def split: option.splits)
  then show ?thesis
    by (auto simp: register_user_def)
qed

lemma register_user_never_raises:
  "\<exists>b. fst (register_user env_get env_create lib salt db username password role) = Returned b"
  by (auto simp: register_user_def split: outcome.splits option.splits prod.splits)


lemma verify_password_True:
  "checkpw lib password hashed = Returned True \<Longrightarrow> verify_password lib password hashed"
  by (simp add: verify_password_def)

text \<open>
  Claim C6: after a registration of \<open>username\<close> that succeeded, a second registration
  of the same username, whatever its password, role, salt and whatever the storage does,
  returns \<open>False\<close>, raises no exception and leaves the database as it was; so does
  \<open>create_user\<close> itself on a storage that works. The stored
  row still has the hash of the first password and the first role, and a login with the
  first password, on a storage that works and with a library whose \<open>checkpw\<close> accepts
  that password against its own hash, returns that user.
\<close>

theorem C6_duplicate_registration:
  assumes "register_user env_get1 env_create1 lib salt1 db username pw1 role1
             = (Returned True, db1)"
  shows
  "register_user env_get2 env_create2 lib2 salt2 db1 username pw2 role2 = (Returned False, db1)
   \<and> (connect_error env = None \<and> execute_error env = None \<longrightarrow>
        create_user env db1 username hash2 role2 = (Returned False, db1))
   \<and> (\<exists>h. hashpw lib pw1 salt1 = Returned h
        \<and> (connect_error env = None \<and> execute_error env = None \<longrightarrow>
             get_user env (snd (register_user env_get2 env_create2 lib2 salt2 db1 username pw2 role2))
               username
             = Returned (Some \<lparr>dict_username = username, dict_password_hash = h,
                               dict_role = role1\<rparr>))
        \<and> (connect_error env = None \<and> execute_error env = None
             \<and> checkpw lib pw1 h = Returned True \<longrightarrow>
             login_user env lib
               (snd (register_user env_get2 env_create2 lib2 salt2 db1 username pw2 role2))
               username pw1
             = Returned (Some \<lparr>dict_username = username, dict_password_hash = h,
                               dict_role = role1\<rparr>)))"
proof -
  obtain h where h: "hashpw lib pw1 salt1 = Returned h"
    and cr: "create_user env_create1 db username h role1 = (Returned True, db1)"
    using register_user_True [OF assms] by blast
  have absent: "username \<notin> set (map u_username (users db))"
    and db1: "db1 = db\<lparr>users := users db @
                  [\<lparr>u_username = username, u_password_hash = h,
                    u_role = role1, u_created_at = CURRENT_TIMESTAMP env_create1\<rparr>]\<rparr>"
    using create_user_True [OF cr] by blast+
  have "\<exists>r \<in> set (users db1). u_username r = username"
    by (simp add: db1)
  then have second:
    "register_user env_get2 env_create2 lib2 salt2 db1 username pw2 role2 = (Returned False, db1)"
    by (rule register_user_existing)
  have get: "get_user env db1 username
             = Returned (Some \<lparr>dict_username = username, dict_password_hash = h,
                               dict_role = role1\<rparr>)"
    if "connect_error env = None \<and> execute_error env = None"
    using that absent unfolding db1 by (simp add: get_user_after_insert)
  have login: "login_user env lib db1 username pw1
             = Returned (Some \<lparr>dict_username = username, dict_password_hash = h,
                               dict_role = role1\<rparr>)"
    if "connect_error env = None \<and> execute_error env = None \<and> checkpw lib pw1 h = Returned True"
    using that get by (simp add: login_user_def verify_password_True)
  have store: "create_user env db1 username hash2 role2 = (Returned False, db1)"
    if "connect_error env = None \<and> execute_error env = None"
    using that by (simp add: create_user_def db1)
  show ?thesis
    using second store h get login by auto
qed

lemma example_hashpw:
  "hashpw example_bcrypt ''pw1'' ''s9zz'' = Returned ''s9zz$pw1''"
  "checkpw example_bcrypt ''pw1'' ''s9zz$pw1'' = Returned True"
  "checkpw example_bcrypt ''pw2'' ''s9zz$pw1'' = Returned False"
  by (simp_all add: example_bcrypt_def)

lemma users_empty_database: "users empty_database = []"
  by (simp add: empty_database_def)

lemma first_registration:
  "register_user (sqlite_at ''2024-01-01 00:00:00'') (sqlite_at ''2024-01-01 00:00:00'')
     example_bcrypt ''s9zz'' empty_database ''alice'' ''pw1'' ''admin''
   = (Returned True, alice_registered)"
proof -
  have "fst (register_user (sqlite_at ''2024-01-01 00:00:00'') (sqlite_at ''2024-01-01 00:00:00'')
     example_bcrypt ''s9zz'' empty_database ''alice'' ''pw1'' ''admin'') = Returned True"
    by (simp add: register_user_def get_user_def create_user_def hash_password_def
          sqlite_at_simps example_hashpw users_empty_database)
  then show ?thesis
    by (simp add: alice_registered_def prod_eq_iff)
qed

text \<open>
  Claim C6 on the empty store: \<open>register("alice", "pw1", "admin")\<close> succeeds, then
  \<open>register("alice", "pw2", "data_science")\<close> returns \<open>False\<close> and changes nothing, and
  \<open>login("alice", "pw1")\<close> returns alice with the role admin and the first hash.
\<close>

theorem C6_duplicate_registration_witness:
  "register_user (sqlite_at ''2024-01-01 00:00:00'') (sqlite_at ''2024-01-01 00:00:00'')
     example_bcrypt ''s9zz'' empty_database ''alice'' ''pw1'' ''admin''
   = (Returned True, alice_registered)
   \<and> register_user (sqlite_at ''2024-01-02 00:00:00'') (sqlite_at ''2024-01-02 00:00:00'')
       example_bcrypt ''t8yy'' alice_registered ''alice'' ''pw2'' ''data_science''
     = (Returned False, alice_registered)
   \<and> login_user (sqlite_at ''2024-01-04 00:00:00'') example_bcrypt
       (snd (register_user (sqlite_at ''2024-01-02 00:00:00'') (sqlite_at ''2024-01-02 00:00:00'')
               example_bcrypt ''t8yy'' alice_registered ''alice'' ''pw2'' ''data_science''))
       ''alice'' ''pw1''
     = Returned (Some \<lparr>dict_username = ''alice'', dict_password_hash = ''s9zz$pw1'',
                       dict_role = ''admin''\<rparr>)"
  using first_registration
    C6_duplicate_registration [OF first_registration,
      where ?env_get2.0 = "sqlite_at ''2024-01-02 00:00:00''"
        and ?env_create2.0 = "sqlite_at ''2024-01-02 00:00:00''"
        and ?lib2.0 = example_bcrypt and ?salt2.0 = "''t8yy''" and ?pw2.0 = "''pw2''"
        and ?role2.0 = "''data_science''" and env = "sqlite_at ''2024-01-04 00:00:00''"
        and ?hash2.0 = "''t8yy$pw2''"]
  by (auto simp: example_hashpw sqlite_at_simps)

section \<open>Seeding of the default users\<close>

lemma insert_default_users_prefix:
  "\<exists>new. insert_default_users env dus rows = rows @ new"
proof (induction dus arbitrary: rows)
  case Nil
  show ?case by simp
next
  case (Cons d dus)
  obtain username hashed_pw role where d: "d = (username, hashed_pw, role)"
    by (cases d) auto
  show ?case
  proof (cases "length (filter (\<lambda>r. u_username r = username) rows) = 0")
    case True
    obtain new where
      "insert_default_users env dus
         (rows @ [\<lparr>u_username = username, u_password_hash = hashed_pw,
                    u_role = role, u_created_at = CURRENT_TIMESTAMP env\<rparr>])
       = (rows @ [\<lparr>u_username = username, u_password_hash = hashed_pw,
                    u_role = role, u_created_at = CURRENT_TIMESTAMP env\<rparr>]) @ new"
      using Cons.IH by blast
    then show ?thesis using True by (simp add: d)
  next
    case False
    then show ?thesis using Cons.IH [of rows] by (simp add: d)
  qed
qed

lemma insert_default_users_names:
  "u_username ` set (insert_default_users env dus rows)
     = u_username ` set rows \<union> fst ` set dus"
proof (induction dus arbitrary: rows)
  case Nil
  show ?case by simp
next
  case (Cons d dus)
  obtain username hashed_pw role where d: "d = (username, hashed_pw, role)"
    by (cases d) auto
  show ?case
    by (auto simp: d Cons.IH filter_empty_conv)
qed

lemma insert_default_users_distinct:
  "distinct (map u_username rows) \<Longrightarrow>
     distinct (map u_username (insert_default_users env dus rows))"
proof (induction dus arbitrary: rows)
  case Nil
  then show ?case by simp
next
  case (Cons d dus)
  obtain username hashed_pw role where d: "d = (username, hashed_pw, role)"
    by (cases d) auto
  show ?case
  proof (cases "length (filter (\<lambda>r. u_username r = username) rows) = 0")
    case True
    then have "username \<notin> set (map u_username rows)"
      by (auto simp: filter_empty_conv)
    then have "distinct (map u_username
                 (rows @ [\<lparr>u_username = username, u_password_hash = hashed_pw,
                    u_role = role, u_created_at = CURRENT_TIMESTAMP env\<rparr>]))"
      using Cons.prems by simp
    then show ?thesis using True Cons.IH by (simp add: d)
  next
    case False
    then show ?thesis using Cons.IH [OF Cons.prems] by (simp add: d)
  qed
qed

lemma insert_default_users_present:
  "set (map fst dus) \<subseteq> set (map u_username rows) \<Longrightarrow> insert_default_users env dus rows = rows"
proof (induction dus)
  case Nil
  show ?case by simp
next
  case (Cons d dus)
  obtain username hashed_pw role where d: "d = (username, hashed_pw, role)"
    by (cases d) auto
  have "username \<in> set (map u_username rows)"
    using Cons.prems by (simp add: d)
  then have "length (filter (\<lambda>r. u_username r = username) rows) \<noteq> 0"
    by (auto simp: filter_empty_conv)
  then show ?case using Cons by (simp add: d)
qed

lemma count_one_of_distinct:
  "distinct (map f rows) \<Longrightarrow> x \<in> set (map f rows) \<Longrightarrow> length (filter (\<lambda>r. f r = x) rows) = 1"
proof (induction rows)
  case Nil
  then show ?case by simp
next
  case (Cons r rows)
  show ?case
  proof (cases "f r = x")
    case True
    then have "\<forall>q \<in> set rows. f q \<noteq> x"
      using Cons.prems(1) by (auto simp: image_iff)
    then have "filter (\<lambda>r. f r = x) rows = []"
      by (simp add: filter_empty_conv)
    then show ?thesis using True by simp
  next
    case False
    then show ?thesis using Cons by auto
  qed
qed

lemma default_users_names:
  "default_users lib gensalt = Returned dus \<Longrightarrow> map fst dus = [''admin'', ''cyber'', ''data'', ''it'']"
  by (auto simp: default_users_def split: outcome.splits)

lemma init_database_users:
  assumes "connect_error env = None" and "execute_error env = None"
    and "default_users lib gensalt = Returned dus"
  shows "init_database env lib gensalt db
           = (Returned (), db\<lparr>users := insert_default_users env dus (users db)\<rparr>)"
  using assms by (simp add: init_database_def)

lemma init_database_seeded:
  assumes "set [''admin'', ''cyber'', ''data'', ''it''] \<subseteq> set (map u_username (users db))"
  shows "snd (init_database env lib gensalt db) = db"
proof (cases "default_users lib gensalt")
  case (Returned dus)
  then have "set (map fst dus) \<subseteq> set (map u_username (users db))"
    using assms default_users_names [OF Returned] by simp
  then have "insert_default_users env dus (users db) = users db"
    by (rule insert_default_users_present)
  then show ?thesis
    using Returned by (simp add: init_database_def split: option.splits)
next
  case (Raised e)
  then show ?thesis by (simp add: init_database_def split: option.splits)
qed

lemma init_database_many_seeded:
  assumes "set [''admin'', ''cyber'', ''data'', ''it''] \<subseteq> set (map u_username (users db))"
  shows "fold (\<lambda>(env, lib, gensalt) d. snd (init_database env lib gensalt d)) calls db = db"
proof (induction calls)
  case Nil
  show ?case by simp
next
  case (Cons c calls)
  obtain env lib gensalt where c: "c = (env, lib, gensalt)"
    by (cases c) auto
  show ?case
    using Cons.IH by (simp add: c init_database_seeded [OF assms])
qed


text \<open>
  Claim C8: \<open>init_database\<close> on a user table that satisfies its primary key (no username
  twice), with a storage that works and a hashing that does not raise. The rows that
  were there stay, in place and unchanged, and rows are only appended; no username
  occurs twice afterwards; each of the four default usernames has exactly one row; and
  running \<open>init_database\<close> again, any number of times and whatever the storage, the
  library and the salts then are, gives the same database. The other tables are not
  touched.
\<close>

theorem C8_seeding_idempotent:
  assumes "connect_error env = None" and "execute_error env = None"
    and "default_users lib gensalt = Returned dus"
    and "distinct (map u_username (users db))"
  shows
  "fst (init_database env lib gensalt db) = Returned ()
   \<and> (\<exists>new. users (snd (init_database env lib gensalt db)) = users db @ new)
   \<and> distinct (map u_username (users (snd (init_database env lib gensalt db))))
   \<and> (\<forall>u \<in> set [''admin'', ''cyber'', ''data'', ''it''].
         length (filter (\<lambda>r. u_username r = u) (users (snd (init_database env lib gensalt db))))
           = 1)
   \<and> fold (\<lambda>(env', lib', gensalt') d. snd (init_database env' lib' gensalt' d)) calls
         (snd (init_database env lib gensalt db))
       = snd (init_database env lib gensalt db)
   \<and> cyber_incidents (snd (init_database env lib gensalt db)) = cyber_incidents db
   \<and> datasets_metadata (snd (init_database env lib gensalt db)) = datasets_metadata db
   \<and> it_tickets (snd (init_database env lib gensalt db)) = it_tickets db"
proof -
  let ?db' = "snd (init_database env lib gensalt db)"
  have init: "init_database env lib gensalt db
                = (Returned (), db\<lparr>users := insert_default_users env dus (users db)\<rparr>)"
    using assms(1-3) by (rule init_database_users)
  have users': "users ?db' = insert_default_users env dus (users db)"
    by (simp add: init)
  have r: "fst (init_database env lib gensalt db) = Returned ()"
    by (simp add: init)
  have pre: "\<exists>new. users ?db' = users db @ new"
    unfolding users' by (rule insert_default_users_prefix)
  have dist: "distinct (map u_username (users ?db'))"
    unfolding users' using assms(4) by (rule insert_default_users_distinct)
  have names: "set [''admin'', ''cyber'', ''data'', ''it''] \<subseteq> set (map u_username (users ?db'))"
    using default_users_names [OF assms(3)] insert_default_users_names [of env dus "users db"]
    unfolding users' by (metis Un_upper2 set_map)
  have one: "\<forall>u \<in> set [''admin'', ''cyber'', ''data'', ''it''].
         length (filter (\<lambda>r. u_username r = u) (users ?db')) = 1"
    using count_one_of_distinct [OF dist] names by blast
  have again: "fold (\<lambda>(env', lib', gensalt') d. snd (init_database env' lib' gensalt' d)) calls ?db'
                 = ?db'"
    using names by (rule init_database_many_seeded)
  have others: "cyber_incidents ?db' = cyber_incidents db"
    "datasets_metadata ?db' = datasets_metadata db" "it_tickets ?db' = it_tickets db"
    by (simp_all add: init)
  from r pre dist one again others show ?thesis by blast
qed

lemma example_default_users:
  "default_users example_bcrypt example_gensalt =
     Returned [(''admin'', ''s0aa$admin123'', ''admin''),
               (''cyber'', ''s1bb$cyber123'', ''cybersecurity''),
               (''data'', ''s2cc$data123'', ''data_science''),
               (''it'', ''s3dd$it123'', ''it_operations'')]"
  by (simp add: default_users_def example_bcrypt_def example_gensalt_def)

lemma users_partly_seeded:
  "users partly_seeded =
     [\<lparr>u_username = ''admin'', u_password_hash = ''changed'', u_role = ''admin'',
       u_created_at = ''2023-12-31 00:00:00''\<rparr>]"
  by (simp add: partly_seeded_def)

lemma init_partly_seeded:
  "users (snd (init_database (sqlite_at ''2024-01-01 00:00:00'') example_bcrypt example_gensalt
                 partly_seeded)) =
     [\<lparr>u_username = ''admin'', u_password_hash = ''changed'', u_role = ''admin'',
       u_created_at = ''2023-12-31 00:00:00''\<rparr>,
      \<lparr>u_username = ''cyber'', u_password_hash = ''s1bb$cyber123'', u_role = ''cybersecurity'',
       u_created_at = ''2024-01-01 00:00:00''\<rparr>,
      \<lparr>u_username = ''data'', u_password_hash = ''s2cc$data123'', u_role = ''data_science'',
       u_created_at = ''2024-01-01 00:00:00''\<rparr>,
      \<lparr>u_username = ''it'', u_password_hash = ''s3dd$it123'', u_role = ''it_operations'',
       u_created_at = ''2024-01-01 00:00:00''\<rparr>]"
  by (simp add: init_database_def sqlite_at_simps example_default_users users_partly_seeded)

text \<open>
  Claim C8 on the store in which only \<open>admin\<close> is present, with a hash of its own: the
  first initialization keeps that row and appends the three other default users, and
  a second initialization, three days later, changes nothing.
\<close>

theorem C8_seeding_idempotent_witness:
  "distinct (map u_username (users partly_seeded))
   \<and> map u_username
        (users (snd (init_database (sqlite_at ''2024-01-01 00:00:00'') example_bcrypt
                       example_gensalt partly_seeded)))
       = [''admin'', ''cyber'', ''data'', ''it'']
   \<and> u_password_hash
        (hd (users (snd (init_database (sqlite_at ''2024-01-01 00:00:00'') example_bcrypt
                           example_gensalt partly_seeded)))) = ''changed''
   \<and> length (filter (\<lambda>r. u_username r = ''admin'')
        (users (snd (init_database (sqlite_at ''2024-01-01 00:00:00'') example_bcrypt
                       example_gensalt partly_seeded)))) = 1
   \<and> snd (init_database (sqlite_at ''2024-01-04 00:00:00'') example_bcrypt example_gensalt
            (snd (init_database (sqlite_at ''2024-01-01 00:00:00'') example_bcrypt
                    example_gensalt partly_seeded)))
       = snd (init_database (sqlite_at ''2024-01-01 00:00:00'') example_bcrypt
                example_gensalt partly_seeded)"
proof -
  have c: "connect_error (sqlite_at ''2024-01-01 00:00:00'') = None"
    and e: "execute_error (sqlite_at ''2024-01-01 00:00:00'') = None"
    by (simp_all add: sqlite_at_simps)
  have d: "distinct (map u_username (users partly_seeded))"
    by (simp add: users_partly_seeded)
  have ev: "map u_username
        (users (snd (init_database (sqlite_at ''2024-01-01 00:00:00'') example_bcrypt
                       example_gensalt partly_seeded)))
       = [''admin'', ''cyber'', ''data'', ''it'']"
    "u_password_hash
        (hd (users (snd (init_database (sqlite_at ''2024-01-01 00:00:00'') example_bcrypt
                           example_gensalt partly_seeded)))) = ''changed''"
    by (simp_all add: init_partly_seeded)
  show ?thesis
    using d ev
      C8_seeding_idempotent [OF c e example_default_users d,
        where calls = "[(sqlite_at ''2024-01-04 00:00:00'', example_bcrypt, example_gensalt)]"]
    by simp
qed

section \<open>Statistics\<close>

lemma sql_avg_empty: "sql_avg [] = None"
  by (simp add: sql_avg_def List.map_filter_simps)

lemma fresh_store_tables:
  "map u_username (users fresh_store) = [''admin'', ''cyber'', ''data'', ''it'']"
  "cyber_incidents fresh_store = []"
  "datasets_metadata fresh_store = []"
  "it_tickets fresh_store = []"
  by (simp_all add: fresh_store_def init_database_def sqlite_at_simps example_default_users
        empty_database_def)

text \<open>
  Claim C9: on a store with no incident, dataset or ticket row and
  a storage that works, \<open>get_statistics\<close> returns, with 0 for the five counts over these
  three tables and 0 for the average quality score (\<open>COALESCE\<close> of the NULL that \<open>AVG\<close>
  gives on no row); \<open>user_count\<close> is the number of rows of \<open>users\<close>.
\<close>

theorem C9_statistics_on_empty_tables:
  assumes "connect_error env = None" and "execute_error env = None"
    and "cyber_incidents db = []" and "datasets_metadata db = []" and "it_tickets db = []"
  shows "get_statistics env db =
           Returned \<lparr>user_count = length (users db), total_incidents = 0, open_incidents = 0,
                     total_datasets = 0, avg_quality = 0, total_tickets = 0, open_tickets = 0\<rparr>"
  using assms by (simp add: get_statistics_def sql_avg_empty)

text \<open>
  Claim C9 on the freshly initialized store: the four seeded users are counted, all
  other statistics are 0.
\<close>

theorem C9_statistics_on_empty_tables_witness:
  "connect_error (sqlite_at ''2024-01-02 00:00:00'') = None
   \<and> execute_error (sqlite_at ''2024-01-02 00:00:00'') = None
   \<and> cyber_incidents fresh_store = [] \<and> datasets_metadata fresh_store = []
   \<and> it_tickets fresh_store = []
   \<and> get_statistics (sqlite_at ''2024-01-02 00:00:00'') fresh_store =
        Returned \<lparr>user_count = length (users fresh_store), total_incidents = 0,
                  open_incidents = 0, total_datasets = 0, avg_quality = 0,
                  total_tickets = 0, open_tickets = 0\<rparr>"
proof -
  have c: "connect_error (sqlite_at ''2024-01-02 00:00:00'') = None"
    and e: "execute_error (sqlite_at ''2024-01-02 00:00:00'') = None"
    by (simp_all add: sqlite_at_simps)
  show ?thesis
    using c e fresh_store_tables(2-4)
      C9_statistics_on_empty_tables [OF c e fresh_store_tables(2-4)]
    by simp
qed

end
